theory Spec2Isabelle
  imports Main
begin

section \<open>The dataset notebook: a class over two native lists\<close>

text \<open>
  The notebook \<^verbatim>\<open>05-dataset_manipulation.ipynb\<close> defines
  \<^verbatim>\<open>
  class MyDataset(torch.utils.data.Dataset):
      def __init__(self, x, y):
          self.x = x
          self.y = y

      def __len__(self):
          return len(self.y)

      def __getitem__(self, i):
          return self.x[i], self.y[i]
  \<close>
  and consumes an instance with a \<^verbatim>\<open>for\<close> loop over a \<^verbatim>\<open>Counter\<close>,
  with \<^verbatim>\<open>list(dataset)\<close> and with \<^verbatim>\<open>list(zip(*dataset))\<close>.

  Python values are dynamically typed: one type variable \<open>'v\<close> stands for the values
  held in both lists. Python integers are unbounded and are \<^typ>\<open>int\<close>.
\<close>

subsection \<open>Errors\<close>

text \<open>
  The only exception the modelled code can raise is the \<^verbatim>\<open>IndexError\<close> of
  a list subscript out of range. The notebook defines no exception of its own.
\<close>

datatype py_error = IndexError

subsection \<open>Subscripting a native list\<close>

text \<open>
  \<^verbatim>\<open>xs[i]\<close> on a Python list: an index below zero is taken from the end
  (the length is added once), and what is then outside the list raises.
\<close>

definition list_getitem :: "'v list \<Rightarrow> int \<Rightarrow> py_error + 'v" where
  "list_getitem xs i =
     (if i < 0
      then (if 0 \<le> i + int (length xs) then Inr (xs ! nat (i + int (length xs))) else Inl IndexError)
      else (if i < int (length xs) then Inr (xs ! nat i) else Inl IndexError))"

subsection \<open>The class\<close>

record 'v MyDataset =
  self_x :: "'v list"
  self_y :: "'v list"

text \<open>
  \<^verbatim>\<open>__init__\<close> stores both arguments and compares nothing. A constructor call
  is a computation that may raise, so its result is a sum; the body has no raising branch.
\<close>

definition MyDataset_init :: "'v list \<Rightarrow> 'v list \<Rightarrow> py_error + 'v MyDataset" where
  "MyDataset_init x y = Inr \<lparr>self_x = x, self_y = y\<rparr>"

text \<open>\<^verbatim>\<open>__len__\<close> reads the second list only.\<close>

definition MyDataset_len :: "'v MyDataset \<Rightarrow> int" where
  "MyDataset_len self = int (length (self_y self))"

text \<open>
  \<^verbatim>\<open>__getitem__\<close> builds the tuple left to right: \<^verbatim>\<open>self.x[i]\<close> is
  evaluated first, and its exception, if any, is the one that leaves the method.
\<close>

definition MyDataset_getitem :: "'v MyDataset \<Rightarrow> int \<Rightarrow> py_error + ('v \<times> 'v)" where
  "MyDataset_getitem self i =
     (case list_getitem (self_x self) i of
        Inl e \<Rightarrow> Inl e
      | Inr a \<Rightarrow>
          (case list_getitem (self_y self) i of
             Inl e \<Rightarrow> Inl e
           | Inr b \<Rightarrow> Inr (a, b)))"

text \<open>
  A method call seen from outside: the value returned, and the object as the call leaves
  it. The body of \<^verbatim>\<open>__getitem__\<close> assigns to no attribute.
\<close>

definition getitem_call :: "int \<Rightarrow> 'v MyDataset \<Rightarrow> (py_error + ('v \<times> 'v)) \<times> 'v MyDataset" where
  "getitem_call i self = (MyDataset_getitem self i, self)"

subsection \<open>Iteration\<close>

text \<open>
  The class defines no \<^verbatim>\<open>__iter__\<close>, and neither does the base class it
  inherits from, so \<^verbatim>\<open>for ... in dataset\<close>, \<^verbatim>\<open>list(dataset)\<close> and
  \<^verbatim>\<open>*dataset\<close> use Python's sequence protocol: \<^verbatim>\<open>__getitem__\<close> is
  called with 0, 1, 2, ... and the first \<^verbatim>\<open>IndexError\<close> ends the traversal.
  \<^verbatim>\<open>__len__\<close> takes no part in it. The position is kept by the traversal, the
  object is threaded through the calls.
\<close>

function seq_iterate :: "nat \<Rightarrow> 'v MyDataset \<Rightarrow> ('v \<times> 'v) list \<times> 'v MyDataset" where
  "seq_iterate i self =
     (case getitem_call (int i) self of
        (Inl IndexError, self') \<Rightarrow> ([], self')
      | (Inr p, self') \<Rightarrow>
          (case seq_iterate (Suc i) self' of (ps, self'') \<Rightarrow> (p # ps, self'')))"
  by pat_completeness auto
termination
  by (relation "measure (\<lambda>(i, self). length (self_x self) - i)")
     (auto simp: getitem_call_def MyDataset_getitem_def list_getitem_def
           split: sum.splits if_splits)

declare seq_iterate.simps [simp del]

definition iter_dataset :: "'v MyDataset \<Rightarrow> ('v \<times> 'v) list" where
  "iter_dataset self = fst (seq_iterate 0 self)"

subsection \<open>The consumers\<close>

text \<open>
  \<^verbatim>\<open>
  label_counter = Counter()
  for data, label in dataset:
      label_counter[label] += 1
  \<close>
  A \<^verbatim>\<open>Counter\<close> is a dictionary whose lookup of a missing key gives 0 and
  stores nothing; the augmented assignment reads, adds one and stores.
\<close>

definition Counter_getitem :: "('k \<rightharpoonup> int) \<Rightarrow> 'k \<Rightarrow> int" where
  "Counter_getitem c k = (case c k of None \<Rightarrow> 0 | Some n \<Rightarrow> n)"

definition loop_body :: "('d \<times> 'k) \<Rightarrow> ('k \<rightharpoonup> int) \<Rightarrow> ('k \<rightharpoonup> int)" where
  "loop_body item c = (case item of (data, label) \<Rightarrow> c(label \<mapsto> Counter_getitem c label + 1))"

definition label_counter :: "'v MyDataset \<Rightarrow> ('v \<rightharpoonup> int)" where
  "label_counter dataset = fold loop_body (iter_dataset dataset) Map.empty"

text \<open>\<^verbatim>\<open>list(dataset)\<close> collects the traversal.\<close>

definition list_dataset :: "'v MyDataset \<Rightarrow> ('v \<times> 'v) list" where
  "list_dataset dataset = iter_dataset dataset"

text \<open>
  \<^verbatim>\<open>zip(*args)\<close>: each round takes the next element of every argument, in
  order, and makes a tuple of them; it stops as soon as one argument is exhausted, and
  with no argument at all it yields nothing.
\<close>

function py_zip :: "'v list list \<Rightarrow> 'v list list" where
  "py_zip args =
     (if args = [] \<or> [] \<in> set args then []
      else map hd args # py_zip (map tl args))"
  by pat_completeness auto
termination
proof (relation "measure (\<lambda>args. sum_list (map length args))")
  show "wf (measure (\<lambda>args::'v list list. sum_list (map length args)))"
    by simp
next
  fix args :: "'v list list"
  assume "\<not> (args = [] \<or> [] \<in> set args)"
  then have ne: "args \<noteq> []" and all: "\<forall>a \<in> set args. a \<noteq> []"
    by auto
  from all have "sum_list (map length (map tl args)) + length args = sum_list (map length args)"
    by (induction args) (auto simp: neq_Nil_conv)
  with ne show "(map tl args, args) \<in> measure (\<lambda>args. sum_list (map length args))"
    by (cases args) auto
qed

declare py_zip.simps [simp del]

text \<open>A 2-tuple passed to \<^verbatim>\<open>zip\<close> is iterated: first component, then second.\<close>

definition tuple_items :: "'v \<times> 'v \<Rightarrow> 'v list" where
  "tuple_items p = [fst p, snd p]"

text \<open>\<^verbatim>\<open>list(zip(*dataset))\<close>: the pairs of the traversal are the arguments.\<close>

definition zip_star_dataset :: "'v MyDataset \<Rightarrow> 'v list list" where
  "zip_star_dataset dataset = py_zip (map tuple_items (iter_dataset dataset))"

section \<open>Properties of the model\<close>

lemma list_getitem_nat:
  "list_getitem xs (int i) = (if i < length xs then Inr (xs ! i) else Inl IndexError)"
  by (simp add: list_getitem_def)

lemma MyDataset_getitem_nat:
  "MyDataset_getitem self (int i) =
     (if i < length (self_x self) \<and> i < length (self_y self)
      then Inr (self_x self ! i, self_y self ! i) else Inl IndexError)"
  by (simp add: MyDataset_getitem_def list_getitem_nat)

lemma seq_iterate_zip:
  "seq_iterate i self = (drop i (zip (self_x self) (self_y self)), self)"
proof (induction i self rule: seq_iterate.induct)
  case (1 i self)
  show ?case
  proof (cases "i < length (self_x self) \<and> i < length (self_y self)")
    case True
    then have g: "getitem_call (int i) self = (Inr (self_x self ! i, self_y self ! i), self)"
      by (simp add: getitem_call_def MyDataset_getitem_nat)
    from True have len: "i < length (zip (self_x self) (self_y self))"
      by simp
    have "seq_iterate (Suc i) self = (drop (Suc i) (zip (self_x self) (self_y self)), self)"
      using "1.IH" [OF g [symmetric] refl] .
    then have "seq_iterate i self =
        ((self_x self ! i, self_y self ! i) # drop (Suc i) (zip (self_x self) (self_y self)), self)"
      by (subst seq_iterate.simps) (simp add: g)
    also have "(self_x self ! i, self_y self ! i) # drop (Suc i) (zip (self_x self) (self_y self))
        = drop i (zip (self_x self) (self_y self))"
      using len Cons_nth_drop_Suc [OF len] by simp
    finally show ?thesis .
  next
    case False
    then have g: "getitem_call (int i) self = (Inl IndexError, self)"
      by (simp add: getitem_call_def MyDataset_getitem_nat)
    from False have "drop i (zip (self_x self) (self_y self)) = []"
      by auto
    then show ?thesis
      by (subst seq_iterate.simps) (simp add: g)
  qed
qed

lemma iter_dataset_zip: "iter_dataset self = zip (self_x self) (self_y self)"
  by (simp add: iter_dataset_def seq_iterate_zip)

subsection \<open>The counting loop\<close>

lemma loop_body_apply:
  "loop_body (d, l) c k = (if k = l then Some (Counter_getitem c l + 1) else c k)"
  by (simp add: loop_body_def)

lemma Counter_getitem_loop_body:
  "Counter_getitem (loop_body (d, l) c) k =
     (if k = l then Counter_getitem c l + 1 else Counter_getitem c k)"
  by (simp add: Counter_getitem_def loop_body_apply)

lemma fold_loop_body:
  "fold loop_body ps c k =
     (if k \<in> snd ` set ps
      then Some (Counter_getitem c k + int (count_list (map snd ps) k))
      else c k)"
proof (induction ps arbitrary: c)
  case Nil
  show ?case by simp
next
  case (Cons p ps)
  obtain d l where p: "p = (d, l)"
    by (cases p)
  have "fold loop_body (p # ps) c k = fold loop_body ps (loop_body (d, l) c) k"
    by (simp add: p)
  also have "\<dots> =
      (if k \<in> snd ` set ps
       then Some (Counter_getitem (loop_body (d, l) c) k + int (count_list (map snd ps) k))
       else loop_body (d, l) c k)"
    by (rule Cons.IH)
  also have "\<dots> =
      (if k \<in> snd ` set (p # ps)
       then Some (Counter_getitem c k + int (count_list (map snd (p # ps)) k))
       else c k)"
  proof (cases "k = l")
    case True
    have "k \<notin> snd ` set ps \<Longrightarrow> count_list (map snd ps) k = 0"
      by (simp add: count_list_0_iff)
    then show ?thesis
      using True by (auto simp: p Counter_getitem_loop_body loop_body_apply)
  next
    case False
    then show ?thesis
      by (simp add: p Counter_getitem_loop_body loop_body_apply)
  qed
  finally show ?case .
qed

lemma label_counter_zip:
  "label_counter self k =
     (if k \<in> snd ` set (zip (self_x self) (self_y self))
      then Some (int (count_list (map snd (zip (self_x self) (self_y self))) k))
      else None)"
  by (simp add: label_counter_def iter_dataset_zip fold_loop_body Counter_getitem_def)

subsection \<open>Transposing the pairs\<close>

lemma py_zip_Nil: "py_zip [] = []"
  by (subst py_zip.simps) simp

lemma py_zip_pairs:
  "py_zip (map tuple_items ps) = (if ps = [] then [] else [map fst ps, map snd ps])"
proof (cases "ps = []")
  case True
  then show ?thesis
    by (simp add: py_zip_Nil)
next
  case False
  then have ne: "[] \<in> set (map (\<lambda>p. []) ps)"
    by (cases ps) simp_all
  have last: "py_zip (map (\<lambda>p. []) ps) = []"
    by (subst py_zip.simps) (simp only: ne simp_thms if_True)
  have snds: "py_zip (map (\<lambda>p. [snd p]) ps) = [map snd ps]"
    using False by (subst py_zip.simps) (auto simp: comp_def last)
  show ?thesis
    using False
    by (subst py_zip.simps) (auto simp: comp_def tuple_items_def snds)
qed

text \<open>
  For a non-empty dataset over two lists of one length, \<^verbatim>\<open>list(zip(*dataset))\<close>
  gives the two lists back, as the notebook's output cell shows.
\<close>

lemma zip_star_dataset_roundtrip:
  assumes "length xs = length ys" and "xs \<noteq> []"
  shows "zip_star_dataset \<lparr>self_x = xs, self_y = ys\<rparr> = [xs, ys]"
  using assms by (auto simp: zip_star_dataset_def iter_dataset_zip py_zip_pairs)

lemma zip_star_example:
  "zip_star_dataset \<lparr>self_x = [1::int, 2, 3, 4, 5], self_y = [0, 0, 1, 0, 1]\<rparr>
     = [[1, 2, 3, 4, 5], [0, 0, 1, 0, 1]]"
  by (simp add: zip_star_dataset_roundtrip)

section \<open>The claims\<close>

subsection \<open>Construction\<close>

text \<open>
  Claim C1, as the code has it: for every two input lists, of equal length or not,
  the constructor succeeds and the object holds exactly the two lists; it never fails.
\<close>

theorem init_never_fails:
  "MyDataset_init xs ys = Inr \<lparr>self_x = xs, self_y = ys\<rparr> \<and> \<not> isl (MyDataset_init xs ys)"
  by (simp add: MyDataset_init_def)

text \<open>
  Claim C1 as stated fails: the lists \<^verbatim>\<open>[1,2,3]\<close> and \<^verbatim>\<open>[0,0]\<close> differ in
  length, and the constructor returns an object instead of an error.
\<close>

theorem init_mismatch_counterexample:
  "length [1::int, 2, 3] \<noteq> length [0::int, 0] \<and>
   MyDataset_init [1::int, 2, 3] [0, 0] = Inr \<lparr>self_x = [1, 2, 3], self_y = [0, 0]\<rparr> \<and>
   \<not> isl (MyDataset_init [1::int, 2, 3] [0, 0])"
  by (simp add: MyDataset_init_def)

text \<open>
  Claim C10: when the two lists differ in length the constructor still succeeds, the
  object's length is the length of the labels alone, and a traversal yields as many pairs
  as the shorter list has elements; with fewer features than labels the two numbers differ.
\<close>

theorem unequal_lengths:
  assumes "length xs \<noteq> length ys"
  shows "\<exists>ds. MyDataset_init xs ys = Inr ds \<and>
           MyDataset_len ds = int (length ys) \<and>
           length (iter_dataset ds) = min (length xs) (length ys) \<and>
           (length xs < length ys \<longrightarrow> int (length (iter_dataset ds)) \<noteq> MyDataset_len ds)"
  by (simp add: MyDataset_init_def MyDataset_len_def iter_dataset_zip)

text \<open>
  Two features and three labels: the length is 3, the traversal has 2 pairs.
\<close>

theorem unequal_lengths_witness:
  "MyDataset_len \<lparr>self_x = [1::int, 2], self_y = [0, 0, 0]\<rparr> = 3 \<and>
   length (iter_dataset \<lparr>self_x = [1::int, 2], self_y = [0, 0, 0]\<rparr>) = 2"
proof -
  have n: "length [1::int, 2] \<noteq> length [0::int, 0, 0]"
    by simp
  from unequal_lengths [OF n] show ?thesis
    by (simp add: MyDataset_init_def)
qed

subsection \<open>Length and subscript\<close>

text \<open>
  Claim C2: for an object constructed from two lists of common length N, the length is N,
  and every index i with 0 \<le> i < N gives the pair of the i-th feature and the i-th label.
\<close>

theorem len_getitem_in_range:
  assumes "MyDataset_init xs ys = Inr ds" and "length xs = length ys"
  shows "MyDataset_len ds = int (length xs) \<and>
         (\<forall>i. 0 \<le> i \<and> i < int (length xs) \<longrightarrow>
            MyDataset_getitem ds i = Inr (xs ! nat i, ys ! nat i))"
  using assms
  by (auto simp: MyDataset_init_def MyDataset_len_def MyDataset_getitem_def list_getitem_def)

theorem len_getitem_in_range_witness:
  "MyDataset_len \<lparr>self_x = [1::int, 2, 3, 4, 5], self_y = [0, 0, 1, 0, 1]\<rparr> = 5 \<and>
   MyDataset_getitem \<lparr>self_x = [1::int, 2, 3, 4, 5], self_y = [0, 0, 1, 0, 1]\<rparr> 2 = Inr (3, 1)"
proof -
  have i: "MyDataset_init [1::int, 2, 3, 4, 5] [0, 0, 1, 0, 1]
      = Inr \<lparr>self_x = [1, 2, 3, 4, 5], self_y = [0, 0, 1, 0, 1]\<rparr>"
    by (simp add: MyDataset_init_def)
  have l: "length [1::int, 2, 3, 4, 5] = length [0::int, 0, 1, 0, 1]"
    by simp
  from len_getitem_in_range [OF i l] show ?thesis
    by simp
qed

text \<open>
  Claim C3, as the code has it: for every object of length N and every index i with
  i < -N or N \<le> i, the subscript raises \<^verbatim>\<open>IndexError\<close>. This holds whatever
  the length of the features is.
\<close>

theorem getitem_out_of_range:
  assumes "i < - MyDataset_len ds \<or> MyDataset_len ds \<le> i"
  shows "MyDataset_getitem ds i = Inl IndexError"
  using assms
  by (auto simp: MyDataset_len_def MyDataset_getitem_def list_getitem_def split: sum.splits)

theorem getitem_out_of_range_witness:
  "MyDataset_getitem \<lparr>self_x = [1::int, 2, 3, 4, 5], self_y = [0, 0, 1, 0, 1]\<rparr> 5 = Inl IndexError \<and>
   MyDataset_getitem \<lparr>self_x = [1::int, 2, 3, 4, 5], self_y = [0, 0, 1, 0, 1]\<rparr> (- 6) = Inl IndexError"
proof -
  let ?ds = "\<lparr>self_x = [1::int, 2, 3, 4, 5], self_y = [0, 0, 1, 0, 1]\<rparr>"
  have lo: "(- 6) < - MyDataset_len ?ds \<or> MyDataset_len ?ds \<le> - 6"
    by (simp add: MyDataset_len_def)
  have hi: "5 < - MyDataset_len ?ds \<or> MyDataset_len ?ds \<le> 5"
    by (simp add: MyDataset_len_def)
  from getitem_out_of_range [OF hi] getitem_out_of_range [OF lo] show ?thesis
    by simp
qed

text \<open>
  Claim C3 as stated fails: the index -1 is outside [0, N), and the subscript returns the
  last pair.
\<close>

theorem getitem_negative_counterexample:
  "\<not> (0 \<le> (- 1 :: int)) \<and>
   MyDataset_getitem \<lparr>self_x = [1::int, 2, 3, 4, 5], self_y = [0, 0, 1, 0, 1]\<rparr> (- 1) = Inr (5, 1)"
  by (simp add: MyDataset_getitem_def list_getitem_def)

text \<open>
  Claim C9: for an object constructed from two lists of common length N > 0 and every
  index i with -N \<le> i \<le> -1, the subscript succeeds with the pair at position N + i.
\<close>

theorem getitem_negative_in_range:
  assumes "MyDataset_init xs ys = Inr ds" and "length xs = length ys"
    and "0 < length xs" and "- int (length xs) \<le> i" and "i \<le> - 1"
  shows "MyDataset_getitem ds i =
         Inr (xs ! nat (int (length xs) + i), ys ! nat (int (length xs) + i))"
  using assms
  by (auto simp: MyDataset_init_def MyDataset_getitem_def list_getitem_def add.commute)

theorem getitem_negative_in_range_witness:
  "MyDataset_getitem \<lparr>self_x = [1::int, 2, 3, 4, 5], self_y = [0, 0, 1, 0, 1]\<rparr> (- 5) = Inr (1, 0) \<and>
   MyDataset_getitem \<lparr>self_x = [1::int, 2, 3, 4, 5], self_y = [0, 0, 1, 0, 1]\<rparr> (- 2) = Inr (4, 0)"
proof -
  have i: "MyDataset_init [1::int, 2, 3, 4, 5] [0, 0, 1, 0, 1]
      = Inr \<lparr>self_x = [1, 2, 3, 4, 5], self_y = [0, 0, 1, 0, 1]\<rparr>"
    by (simp add: MyDataset_init_def)
  have l: "length [1::int, 2, 3, 4, 5] = length [0::int, 0, 1, 0, 1]"
    by simp
  have p: "0 < length [1::int, 2, 3, 4, 5]"
    by simp
  have a: "- int (length [1::int, 2, 3, 4, 5]) \<le> - 5" "(- 5 :: int) \<le> - 1"
    by simp_all
  have b: "- int (length [1::int, 2, 3, 4, 5]) \<le> - 2" "(- 2 :: int) \<le> - 1"
    by simp_all
  from getitem_negative_in_range [OF i l p a] getitem_negative_in_range [OF i l p b]
  show ?thesis
    by simp
qed

text \<open>
  Claim C8: constructing from two empty lists succeeds, the length is 0, a traversal
  yields nothing, and the subscript 0 raises \<^verbatim>\<open>IndexError\<close>.
\<close>

theorem empty_dataset:
  "MyDataset_init [] [] = Inr \<lparr>self_x = [], self_y = []\<rparr> \<and>
   MyDataset_len \<lparr>self_x = [], self_y = []\<rparr> = 0 \<and>
   iter_dataset \<lparr>self_x = [], self_y = []\<rparr> = [] \<and>
   MyDataset_getitem \<lparr>self_x = [], self_y = []\<rparr> 0 = Inl IndexError"
  by (simp add: MyDataset_init_def MyDataset_len_def iter_dataset_zip
      MyDataset_getitem_def list_getitem_def)

subsection \<open>Traversal and its consumers\<close>

text \<open>
  Claim C7: a traversal leaves the object as it found it; a second traversal, run on the
  object the first one left, yields the same pairs; and the pairs are those at the positions
  0, 1, ... in order, up to the end of the shorter list.
\<close>

theorem iterate_restartable:
  "snd (seq_iterate 0 ds) = ds \<and>
   fst (seq_iterate 0 (snd (seq_iterate 0 ds))) = fst (seq_iterate 0 ds) \<and>
   fst (seq_iterate 0 ds) =
     map (\<lambda>i. (self_x ds ! i, self_y ds ! i)) [0..<min (length (self_x ds)) (length (self_y ds))]"
  by (simp add: seq_iterate_zip list_eq_iff_nth_eq)

text \<open>
  Claim C6: for an object constructed from two lists of common length N,
  \<^verbatim>\<open>list(dataset)\<close> has N elements and is the sequence of the results of the
  subscripts 0, 1, ..., N - 1, none of which fails.
\<close>

theorem list_dataset_is_getitems:
  assumes "MyDataset_init xs ys = Inr ds" and "length xs = length ys"
  shows "length (list_dataset ds) = length xs \<and>
         map Inr (list_dataset ds) =
           map (\<lambda>i. MyDataset_getitem ds (int i)) [0..<nat (MyDataset_len ds)]"
proof
  from assms(1) have ds: "self_x ds = xs" "self_y ds = ys"
    by (auto simp: MyDataset_init_def)
  have l: "list_dataset ds = zip xs ys"
    by (simp add: list_dataset_def iter_dataset_zip ds)
  have n: "nat (MyDataset_len ds) = length ys"
    by (simp add: MyDataset_len_def ds)
  show "length (list_dataset ds) = length xs"
    by (simp add: l assms(2))
  show "map Inr (list_dataset ds) =
      map (\<lambda>i. MyDataset_getitem ds (int i)) [0..<nat (MyDataset_len ds)]"
  proof (rule nth_equalityI)
    show "length (map Inr (list_dataset ds)) =
        length (map (\<lambda>i. MyDataset_getitem ds (int i)) [0..<nat (MyDataset_len ds)])"
      by (simp add: l n assms(2))
  next
    fix i
    assume "i < length (map Inr (list_dataset ds))"
    then have i: "i < length xs" "i < length ys"
      by (simp_all add: l)
    then have "MyDataset_getitem ds (int i) = Inr (xs ! i, ys ! i)"
      by (simp add: MyDataset_getitem_nat ds)
    with i show "map Inr (list_dataset ds) ! i =
        map (\<lambda>i. MyDataset_getitem ds (int i)) [0..<nat (MyDataset_len ds)] ! i"
      by (simp add: l n)
  qed
qed

text \<open>
  The notebook's own lists give \<^verbatim>\<open>[(1, 0), (2, 0), (3, 1), (4, 0), (5, 1)]\<close>.
\<close>

theorem list_dataset_is_getitems_witness:
  "list_dataset \<lparr>self_x = [1::int, 2, 3, 4, 5], self_y = [0, 0, 1, 0, 1]\<rparr>
     = [(1, 0), (2, 0), (3, 1), (4, 0), (5, 1)]"
proof -
  let ?ds = "\<lparr>self_x = [1::int, 2, 3, 4, 5], self_y = [0::int, 0, 1, 0, 1]\<rparr>"
  have i: "MyDataset_init [1::int, 2, 3, 4, 5] [0, 0, 1, 0, 1] = Inr ?ds"
    by (simp add: MyDataset_init_def)
  have e: "length [1::int, 2, 3, 4, 5] = length [0::int, 0, 1, 0, 1]"
    by simp
  have "map Inr (list_dataset ?ds) =
      map (\<lambda>i. MyDataset_getitem ?ds (int i)) [0..<nat (MyDataset_len ?ds)]"
    using list_dataset_is_getitems [OF i e] by simp
  also have "\<dots> = map Inr [(1, 0), (2, 0), (3, 1), (4, 0), (5, 1)]"
    by (simp add: MyDataset_len_def MyDataset_getitem_def list_getitem_def upt_rec)
  finally show ?thesis
    by (rule map_injective) simp
qed

text \<open>
  Claim C5: for an object constructed from two lists of one length, the counter maps every
  label that occurs to the number of its occurrences in the labels, and has no other key.
\<close>

theorem label_counter_frequency:
  assumes "MyDataset_init xs ys = Inr ds" and "length xs = length ys"
  shows "label_counter ds l = (if l \<in> set ys then Some (int (count_list ys l)) else None)"
proof -
  from assms(1) have ds: "self_x ds = xs" "self_y ds = ys"
    by (auto simp: MyDataset_init_def)
  from assms(2) have m: "map snd (zip xs ys) = ys"
    by simp
  have "snd ` set (zip xs ys) = set (map snd (zip xs ys))"
    by simp
  then have s: "snd ` set (zip xs ys) = set ys"
    by (simp only: m)
  show ?thesis
    by (simp only: label_counter_zip ds m s)
qed

text \<open>
  The notebook's own lists give \<^verbatim>\<open>{0: 3, 1: 2}\<close>.
\<close>

theorem label_counter_frequency_witness:
  "label_counter \<lparr>self_x = [1::int, 2, 3, 4, 5], self_y = [0::int, 0, 1, 0, 1]\<rparr> = [0 \<mapsto> 3, 1 \<mapsto> 2]"
proof (rule ext)
  fix l :: int
  let ?ds = "\<lparr>self_x = [1::int, 2, 3, 4, 5], self_y = [0::int, 0, 1, 0, 1]\<rparr>"
  have i: "MyDataset_init [1::int, 2, 3, 4, 5] [0, 0, 1, 0, 1] = Inr ?ds"
    by (simp add: MyDataset_init_def)
  have e: "length [1::int, 2, 3, 4, 5] = length [0::int, 0, 1, 0, 1]"
    by simp
  have f: "label_counter ?ds k =
      (if k \<in> set [0::int, 0, 1, 0, 1] then Some (int (count_list [0::int, 0, 1, 0, 1] k)) else None)"
    for k
    by (rule label_counter_frequency [OF i e])
  consider "l = 0" | "l = 1" | "l \<noteq> 0" "l \<noteq> 1"
    by blast
  then show "label_counter ?ds l = [0 \<mapsto> 3, 1 \<mapsto> 2] l"
  proof cases
    case 1
    show ?thesis unfolding 1 by (simp add: f)
  next
    case 2
    show ?thesis unfolding 2 by (simp add: f)
  next
    case 3
    then show ?thesis by (simp add: f)
  qed
qed

text \<open>
  Claim C4 at two empty lists: the constructor succeeds and \<^verbatim>\<open>list(zip(*dataset))\<close>
  is the empty list, not a list of two empty sequences.
\<close>

theorem zip_star_dataset_empty:
  "MyDataset_init [] [] = Inr \<lparr>self_x = [], self_y = []\<rparr> \<and>
   zip_star_dataset \<lparr>self_x = [], self_y = []\<rparr> = [] \<and>
   zip_star_dataset \<lparr>self_x = [], self_y = []\<rparr> \<noteq> [[], []]"
  by (simp add: MyDataset_init_def zip_star_dataset_def iter_dataset_zip py_zip_Nil)

end
